theory Spec2Isabelle
  imports Complex_Main "HOL-Library.AList" "HOL-Library.Word"
begin

section \<open>Backup chain store (BackupMetadata)\<close>

text \<open>
  The structs of \<^verbatim>\<open>BackupMetadata.h\<close>. \<^verbatim>\<open>std::uintmax_t\<close> is a 64-bit word, a
  \<^verbatim>\<open>time_point\<close> is a number of clock ticks. The fields of \<^verbatim>\<open>FileEntry\<close> carry the
  prefix \<open>fe_\<close> where the source's name is also a field of \<^verbatim>\<open>BackupInfo\<close> or a
  constant of HOL.
\<close>

type_synonym uintmax = "64 word"
type_synonym time_point = int

record FileEntry =
  relativePath :: string
  fe_checksum :: string
  fe_size :: uintmax
  fe_lastModified :: time_point
  fe_compressed :: bool
  fe_encrypted :: bool
  fe_compressedSize :: uintmax

record BackupInfo =
  backupId :: string
  backupType :: string
  timestamp :: time_point
  sourcePath :: string
  parentBackupId :: string
  files :: "FileEntry list"
  totalSize :: uintmax
  compressedSize :: uintmax
  encrypted :: bool
  encryptionMethod :: string
  compressionMethod :: string
  compressionLevel :: int

text \<open>
  \<^verbatim>\<open>std::unordered_map<std::string, BackupInfo> backups_\<close>: an association list;
  \<^verbatim>\<open>find\<close> is \<^const>\<open>map_of\<close>, \<^verbatim>\<open>backups_[k] = v\<close> is \<^const>\<open>AList.update\<close>,
  \<^verbatim>\<open>erase\<close> is \<^const>\<open>AList.delete\<close>, and a range-for visits the entries in list order.
\<close>

type_synonym backups = "(string \<times> BackupInfo) list"

definition validateBackupInfo :: "BackupInfo \<Rightarrow> bool" where
  "validateBackupInfo info =
     (if backupId info = [] \<or> backupType info = [] \<or> sourcePath info = [] then False
      else if backupType info \<noteq> ''full'' \<and> backupType info \<noteq> ''incremental'' then False
      else True)"

definition createBackupInfo :: "backups \<Rightarrow> BackupInfo \<Rightarrow> bool \<times> backups" where
  "createBackupInfo s info =
     (if \<not> validateBackupInfo info then (False, s)
      else (True, AList.update (backupId info) info s))"

text \<open>
  The loop of \<^verbatim>\<open>getBackupChain\<close>, on the loop state (\<^verbatim>\<open>chain\<close>, \<^verbatim>\<open>currentId\<close>). The
  search of the cycle guard runs over \<^verbatim>\<open>[chain.begin(), chain.end() - 1)\<close>, that is over
  the chain without the element just pushed.
\<close>

function getBackupChain_loop :: "backups \<Rightarrow> string list \<Rightarrow> string \<Rightarrow> string list" where
  "getBackupChain_loop s chain currentId =
     (if currentId = [] then chain
      else case map_of s currentId of
        None \<Rightarrow> chain
      | Some info \<Rightarrow>
          (if parentBackupId info \<in> set (butlast (chain @ [currentId]))
           then chain @ [currentId]
           else getBackupChain_loop s (chain @ [currentId]) (parentBackupId info)))"
  by pat_completeness auto

termination getBackupChain_loop
proof (relation "measure (\<lambda>(s, ch, c). 2 * card (fst ` set s - set ch)
                                        + (if c \<in> set ch then 1 else 0))", goal_cases)
  case 1
  show ?case by simp
next
  case (2 s chain currentId info)
  let ?ks = "fst ` set s"
  have k: "currentId \<in> ?ks"
    using 2(2) by (metis map_of_SomeD fst_conv image_eqI)
  have nx: "parentBackupId info \<notin> set chain" using 2(3) by simp
  have step: "2 * card (?ks - set (chain @ [currentId]))
                + (if parentBackupId info \<in> set (chain @ [currentId]) then 1 else 0)
              < 2 * card (?ks - set chain) + (if currentId \<in> set chain then 1 else (0::nat))"
  proof (cases "currentId \<in> set chain")
    case True
    then have "set (chain @ [currentId]) = set chain" by auto
    with True nx show ?thesis by simp
  next
    case False
    have eq: "?ks - set (chain @ [currentId]) = (?ks - set chain) - {currentId}" by auto
    have mem: "currentId \<in> ?ks - set chain" using k False by simp
    have "finite (?ks - set chain)" by simp
    then have "card (?ks - set chain - {currentId}) < card (?ks - set chain)"
      using mem by (meson card_Diff1_less)
    with False eq show ?thesis by (auto split: if_splits)
  qed
  then show ?case by simp
qed

declare getBackupChain_loop.simps [simp del]

definition getBackupChain :: "backups \<Rightarrow> string \<Rightarrow> string list" where
  "getBackupChain s backupId' = getBackupChain_loop s [] backupId'"

text \<open>
  \<^verbatim>\<open>getFullBackupId\<close> walks the chain from its last element backwards and returns the
  first id that is stored with type \<^verbatim>\<open>"full"\<close>.
\<close>

definition getFullBackupId :: "backups \<Rightarrow> string \<Rightarrow> string" where
  "getFullBackupId s incrementalBackupId =
     (case find (\<lambda>i. case map_of s i of None \<Rightarrow> False
                                      | Some info \<Rightarrow> backupType info = ''full'')
                (rev (getBackupChain s incrementalBackupId)) of
        Some i \<Rightarrow> i
      | None \<Rightarrow> [])"

text \<open>
  \<^verbatim>\<open>cleanupOrphanedEntries\<close>: one pass collects the keys to remove against the store as
  it is on entry, a second loop erases them.
\<close>

definition orphaned :: "backups \<Rightarrow> BackupInfo \<Rightarrow> bool" where
  "orphaned s info \<longleftrightarrow>
     backupType info = ''incremental'' \<and> parentBackupId info \<noteq> []
     \<and> map_of s (parentBackupId info) = None"

definition cleanupOrphanedEntries :: "backups \<Rightarrow> bool \<times> backups" where
  "cleanupOrphanedEntries s =
     (let toRemove = map fst (filter (\<lambda>(k, info). orphaned s info) s)
      in (True, fold AList.delete toRemove s))"

text \<open>
  \<^verbatim>\<open>getCompressionRatio\<close>. The arithmetic of \<^verbatim>\<open>double\<close> is not part of the
  repository: the type \<open>'d\<close> of doubles and the three things the function uses
  (\<^verbatim>\<open>static_cast<double>\<close> on a 64-bit unsigned value, the quotient of two doubles, the
  literal \<^verbatim>\<open>0.0\<close>) are a parameter of the model, with nothing said about rounding. The
  division is an operation of its own that has no value at the divisor \<^verbatim>\<open>0.0\<close>, so that
  a path reaching it with such a divisor would show as \<open>None\<close>.
\<close>

record 'd double_ops =
  static_cast_double :: "uintmax \<Rightarrow> 'd"
  quotient :: "'d \<Rightarrow> 'd \<Rightarrow> 'd"
  zero_literal :: 'd

definition fdiv :: "'d double_ops \<Rightarrow> 'd \<Rightarrow> 'd \<Rightarrow> 'd option" where
  "fdiv D a b = (if b = zero_literal D then None else Some (quotient D a b))"

definition getCompressionRatio :: "'d double_ops \<Rightarrow> backups \<Rightarrow> string \<Rightarrow> 'd option" where
  "getCompressionRatio D s backupId' =
     (case map_of s backupId' of
        Some info \<Rightarrow>
          (if totalSize info > 0
           then fdiv D (static_cast_double D (compressedSize info))
                       (static_cast_double D (totalSize info))
           else Some (zero_literal D))
      | None \<Rightarrow> Some (zero_literal D))"

section \<open>The environment\<close>

text \<open>
  The orchestrator works on the file system, the clock and two random sources. They are
  an explicit \<open>world\<close> that every operation takes and returns. The libraries the code
  links against (OpenSSL, zlib, the C and C++ runtime) are not part of the repository:
  what the code needs of them is a record \<open>libs\<close> of functions, a parameter of the
  model. \<open>None\<close> from a library function stands for the call reporting an error.
\<close>

type_synonym byte = "8 word"
type_synonym bytes = "byte list"

record FileInfo =
  path :: string
  fi_size :: uintmax
  fi_lastModified :: time_point
  fi_checksum :: string
  isDirectory :: bool

type_synonym file_state = "(string \<times> FileInfo) list"

text \<open>
  A file holds raw bytes or one of the two JSON documents the program writes. A document
  is kept as the values its reader extracts: an element \<open>None\<close> is an array element on
  which a field access of the reader throws. \<open>OtherJson\<close> is a JSON text that is
  neither an object nor \<^verbatim>\<open>null\<close>, on which \<^verbatim>\<open>j["files"]\<close> and \<^verbatim>\<open>j["backups"]\<close> throw; raw
  bytes are taken not to parse as JSON.
\<close>

datatype content =
    Raw bytes
  | MetadataJson "BackupInfo option list"
  | StateJson "FileInfo option list"
  | OtherJson

text \<open>
  A directory with its modification time, or a regular file with a flag (can it be opened
  for reading), its content and its modification time. Paths are absolute, normalised,
  \<^verbatim>\<open>/\<close>-separated strings; there are no symbolic links. The behaviour of the file
  system calls is the one of Linux.
\<close>

datatype node = Dir time_point | File bool content time_point

text \<open>
  \<^verbatim>\<open>Utils::getFileModificationTime\<close> converts a file time by reading the file clock and
  the system clock one after the other, so that its result is off by what passes between
  the two reads: \<open>conv_error w n\<close> is the error of the \<open>n\<close>-th conversion, and
  \<open>conversions\<close> counts them.
\<close>

record world =
  fs :: "(string \<times> node) list"
  clock :: time_point
  uuid_source :: "nat \<Rightarrow> string"
  uuids_drawn :: nat
  rand_source :: "nat \<Rightarrow> byte"
  rand_drawn :: nat
  rand_ok :: bool
  conv_error :: "nat \<Rightarrow> int"
  conversions :: nat

text \<open>
  \<open>timestamp_roundtrip\<close> is \<^verbatim>\<open>Utils::parseTimestamp\<close> after \<^verbatim>\<open>Utils::formatTimestamp\<close>:
  what is left of a time that has been printed into a document, at whole seconds of
  local time, and read back.
\<close>

record libs =
  sha256_hex :: "bytes \<Rightarrow> string"
  zlib_deflate :: "int \<Rightarrow> bytes \<Rightarrow> bytes option"
  aes_256_cbc_encrypt :: "bytes \<Rightarrow> bytes \<Rightarrow> bytes \<Rightarrow> bytes option"
  stoul16 :: "string \<Rightarrow> nat option"
  backup_dir_name :: "time_point \<Rightarrow> string"
  json_text :: "content \<Rightarrow> bytes"
  timestamp_roundtrip :: "time_point \<Rightarrow> time_point"

definition file_bytes :: "libs \<Rightarrow> content \<Rightarrow> bytes" where
  "file_bytes L c = (case c of Raw b \<Rightarrow> b | _ \<Rightarrow> json_text L c)"

subsection \<open>Paths (std::filesystem::path)\<close>

definition joinPaths :: "string \<Rightarrow> string \<Rightarrow> string" where
  "joinPaths path1 path2 =
     (if path2 \<noteq> [] \<and> hd path2 = CHR ''/'' then path2
      else if path1 = [] then path2
      else if last path1 = CHR ''/'' then path1 @ path2
      else path1 @ ''/'' @ path2)"

definition getParentDirectory :: "string \<Rightarrow> string" where
  "getParentDirectory p =
     (let d = rev (dropWhile (\<lambda>c. c \<noteq> CHR ''/'') (rev p))
      in if d = [] then [] else if d = ''/'' then ''/'' else butlast d)"

definition getFileName :: "string \<Rightarrow> string" where
  "getFileName p = rev (takeWhile (\<lambda>c. c \<noteq> CHR ''/'') (rev p))"

fun split_path :: "string \<Rightarrow> string \<Rightarrow> string list" where
  "split_path acc [] = (if acc = [] then [] else [acc])"
| "split_path acc (c # cs) =
     (if c = CHR ''/'' then (if acc = [] then [] else [acc]) @ split_path [] cs
      else split_path (acc @ [c]) cs)"

fun strip_common :: "string list \<Rightarrow> string list \<Rightarrow> string list \<times> string list" where
  "strip_common (x # xs) (y # ys) = (if x = y then strip_common xs ys else (x # xs, y # ys))"
| "strip_common xs ys = (xs, ys)"

fun join_components :: "string list \<Rightarrow> string" where
  "join_components [] = []"
| "join_components [x] = x"
| "join_components (x # y # ys) = x @ ''/'' @ join_components (y # ys)"

text \<open>
  \<^verbatim>\<open>fs::relative(full, base)\<close> on normalised paths: the common leading components are
  dropped, every remaining component of the base becomes \<^verbatim>\<open>..\<close>, and equal paths give
  \<^verbatim>\<open>.\<close>.
\<close>

definition getRelativePath :: "string \<Rightarrow> string \<Rightarrow> string" where
  "getRelativePath basePath fullPath =
     (case strip_common (split_path [] basePath) (split_path [] fullPath) of
        (b, f) \<Rightarrow>
          (if b = [] \<and> f = [] then ''.''
           else join_components (replicate (length b) ''..'' @ f)))"

subsection \<open>File system operations (Utils)\<close>

definition pathExists :: "world \<Rightarrow> string \<Rightarrow> bool" where
  "pathExists w p = (map_of (fs w) p \<noteq> None)"

definition is_directory :: "world \<Rightarrow> string \<Rightarrow> bool" where
  "is_directory w p = (case map_of (fs w) p of Some (Dir t) \<Rightarrow> True | _ \<Rightarrow> False)"

fun is_regular_node :: "node \<Rightarrow> bool" where
  "is_regular_node (File r c t) = True"
| "is_regular_node (Dir t) = False"

text \<open>The path itself and its ancestors below the root, outermost first.\<close>

fun ancestors :: "string \<Rightarrow> string \<Rightarrow> string list" where
  "ancestors acc [] = (if acc = [] \<or> acc = ''/'' then [] else [acc])"
| "ancestors acc (c # cs) =
     (if c = CHR ''/'' \<and> acc \<noteq> [] then acc # ancestors (acc @ [c]) cs
      else ancestors (acc @ [c]) cs)"

text \<open>
  \<^verbatim>\<open>fs::create_directories\<close>: missing components are created, a component that exists
  and is not a directory makes the call throw (\<open>None\<close>).
\<close>

fun create_directories :: "time_point \<Rightarrow> string list \<Rightarrow> (string \<times> node) list
                           \<Rightarrow> (string \<times> node) list option" where
  "create_directories now [] f = Some f"
| "create_directories now (d # ds) f =
     (case map_of f d of
        None \<Rightarrow> create_directories now ds (AList.update d (Dir now) f)
      | Some (Dir t) \<Rightarrow> create_directories now ds f
      | Some (File r c t) \<Rightarrow> None)"

definition createDirectoryRecursive :: "world \<Rightarrow> string \<Rightarrow> bool \<times> world" where
  "createDirectoryRecursive w p =
     (if p = [] then (False, w)
      else case create_directories (clock w) (ancestors [] p) (fs w) of
        None \<Rightarrow> (False, w)
      | Some f \<Rightarrow> (True, w\<lparr>fs := f\<rparr>))"

text \<open>
  A file can be created or truncated at \<open>p\<close> when its parent directory exists and \<open>p\<close>
  is not a directory.
\<close>

definition can_write :: "world \<Rightarrow> string \<Rightarrow> bool" where
  "can_write w p =
     (is_directory w (getParentDirectory p) \<and> \<not> is_directory w p)"

definition write_file :: "world \<Rightarrow> string \<Rightarrow> content \<Rightarrow> world" where
  "write_file w p c = w\<lparr>fs := AList.update p (File True c (clock w)) (fs w)\<rparr>"

text \<open>
  The content of a regular file that can be read; \<^verbatim>\<open>fs::copy_file\<close> copies nothing else.
\<close>

definition open_read :: "world \<Rightarrow> string \<Rightarrow> content option" where
  "open_read w p =
     (case map_of (fs w) p of
        Some (File r c t) \<Rightarrow> (if r then Some c else None)
      | _ \<Rightarrow> None)"

text \<open>
  What \<^verbatim>\<open>fopen(p, "rb")\<close> and \<^verbatim>\<open>std::ifstream\<close> give: \<open>None\<close> when \<open>p\<close> cannot be
  opened, otherwise the bytes that reading yields and a flag saying that reading went
  without error. A directory can be opened; reading it yields no byte and sets the
  error indicator of the stream.
\<close>

definition fopen_rb :: "libs \<Rightarrow> world \<Rightarrow> string \<Rightarrow> (bool \<times> bytes) option" where
  "fopen_rb L w p =
     (case map_of (fs w) p of
        None \<Rightarrow> None
      | Some (Dir t) \<Rightarrow> Some (False, [])
      | Some (File r c t) \<Rightarrow> (if r then Some (True, file_bytes L c) else None))"

definition copyFile :: "world \<Rightarrow> string \<Rightarrow> string \<Rightarrow> bool \<times> world" where
  "copyFile w source dest =
     (case open_read w source of
        None \<Rightarrow> (False, w)
      | Some c \<Rightarrow>
          (if source = dest \<or> \<not> can_write w dest then (False, w)
           else (True, write_file w dest c)))"

definition remove_file :: "world \<Rightarrow> string \<Rightarrow> world" where
  "remove_file w p = w\<lparr>fs := AList.delete p (fs w)\<rparr>"

definition getFileSize :: "libs \<Rightarrow> world \<Rightarrow> string \<Rightarrow> uintmax" where
  "getFileSize L w p =
     (case map_of (fs w) p of
        Some (File r c t) \<Rightarrow> of_nat (length (file_bytes L c))
      | _ \<Rightarrow> 0)"

definition convert_file_time :: "world \<Rightarrow> time_point \<Rightarrow> time_point \<times> world" where
  "convert_file_time w t =
     (t + conv_error w (conversions w), w\<lparr>conversions := Suc (conversions w)\<rparr>)"

definition getFileModificationTime :: "world \<Rightarrow> string \<Rightarrow> time_point \<times> world" where
  "getFileModificationTime w p =
     (case map_of (fs w) p of
        Some (File r c t) \<Rightarrow> convert_file_time w t
      | Some (Dir t) \<Rightarrow> convert_file_time w t
      | None \<Rightarrow> (clock w, w))"

definition calculateSHA256 :: "libs \<Rightarrow> world \<Rightarrow> string \<Rightarrow> string" where
  "calculateSHA256 L w p =
     (case fopen_rb L w p of
        None \<Rightarrow> []
      | Some (ok, b) \<Rightarrow> sha256_hex L b)"

definition generateUUID :: "world \<Rightarrow> string \<times> world" where
  "generateUUID w = (uuid_source w (uuids_drawn w), w\<lparr>uuids_drawn := Suc (uuids_drawn w)\<rparr>)"

text \<open>
  The entries a \<^verbatim>\<open>recursive_directory_iterator\<close> on \<open>dir\<close> visits: everything below
  \<open>dir\<close>, in the order of the file system's list. \<open>None\<close> when \<open>dir\<close> is not a
  directory (the iterator's constructor throws). A \<^verbatim>\<open>directory_iterator\<close> visits the
  entries directly in \<open>dir\<close>.
\<close>

definition is_under :: "string \<Rightarrow> string \<Rightarrow> bool" where
  "is_under dir p = (length dir + 1 < length p \<and> take (length dir + 1) p = dir @ ''/'')"

definition recursive_directory_iterator :: "world \<Rightarrow> string \<Rightarrow> (string \<times> node) list option" where
  "recursive_directory_iterator w dir =
     (if is_directory w dir then Some (filter (\<lambda>(p, n). is_under dir p) (fs w))
      else None)"

definition directory_iterator :: "world \<Rightarrow> string \<Rightarrow> (string \<times> node) list option" where
  "directory_iterator w dir =
     (if is_directory w dir
      then Some (filter (\<lambda>(p, n). is_under dir p \<and> getParentDirectory p = dir) (fs w))
      else None)"

section \<open>Change tracker (FileTracker)\<close>

text \<open>Private members are written without their trailing underscore.\<close>

record FileTracker =
  currentState :: file_state
  previousState :: file_state

definition FileTracker_new :: FileTracker where
  "FileTracker_new = \<lparr>currentState = [], previousState = []\<rparr>"

definition createFileInfo :: "libs \<Rightarrow> world \<Rightarrow> string \<times> node \<Rightarrow> FileInfo \<times> world" where
  "createFileInfo L w entry =
     (case entry of
        (p, Dir t) \<Rightarrow>
          (case getFileModificationTime w p of
             (mtime, w') \<Rightarrow>
               (\<lparr>path = p, fi_size = 0, fi_lastModified = mtime,
                 fi_checksum = [], isDirectory = True\<rparr>, w'))
      | (p, File r c t) \<Rightarrow>
          (case getFileModificationTime w p of
             (mtime, w') \<Rightarrow>
               (\<lparr>path = p, fi_size = of_nat (length (file_bytes L c)),
                 fi_lastModified = mtime,
                 fi_checksum = calculateSHA256 L w' p, isDirectory = False\<rparr>, w')))"

text \<open>The loop of \<^verbatim>\<open>scanDirectoryRecursive\<close>, on the current state and the world.\<close>

fun scan_entries :: "libs \<Rightarrow> (string \<times> node) list \<Rightarrow> file_state \<times> world
                     \<Rightarrow> file_state \<times> world" where
  "scan_entries L [] st = st"
| "scan_entries L (entry # entries) st =
     (case st of
        (cur, w) \<Rightarrow>
          (case createFileInfo L w entry of
             (info, w') \<Rightarrow> scan_entries L entries (AList.update (path info) info cur, w')))"

definition scanDirectory :: "libs \<Rightarrow> world \<Rightarrow> FileTracker \<Rightarrow> string
                             \<Rightarrow> bool \<times> FileTracker \<times> world" where
  "scanDirectory L w t p =
     (case recursive_directory_iterator w p of
        None \<Rightarrow> (False, t\<lparr>currentState := []\<rparr>, w)
      | Some entries \<Rightarrow>
          (case scan_entries L entries ([], w) of
             (cur, w') \<Rightarrow> (True, t\<lparr>currentState := cur\<rparr>, w')))"

text \<open>What \<^verbatim>\<open>file >> j\<close> and the accesses to \<^verbatim>\<open>j\<close> yield for a path that exists.\<close>

datatype 'a json_read = CannotOpen | ParseError | NotObject | Items "'a option list"

definition read_state_json :: "world \<Rightarrow> string \<Rightarrow> FileInfo json_read" where
  "read_state_json w p =
     (case map_of (fs w) p of
        Some (File r c t) \<Rightarrow>
          (if \<not> r then CannotOpen
           else case c of
             Raw b \<Rightarrow> ParseError
           | StateJson d \<Rightarrow> Items d
           | MetadataJson d \<Rightarrow> Items []
           | OtherJson \<Rightarrow> NotObject)
      | _ \<Rightarrow> ParseError)"

fun load_state_items :: "FileInfo option list \<Rightarrow> FileTracker \<Rightarrow> bool \<times> FileTracker" where
  "load_state_items [] t = (True, t)"
| "load_state_items (None # items) t = (False, t)"
| "load_state_items (Some info # items) t =
     load_state_items items
       (t\<lparr>previousState := AList.update (path info) info (previousState t)\<rparr>)"

definition loadPreviousState :: "world \<Rightarrow> FileTracker \<Rightarrow> string \<Rightarrow> bool \<times> FileTracker" where
  "loadPreviousState w t stateFile =
     (if \<not> pathExists w stateFile then (True, t)
      else case read_state_json w stateFile of
        CannotOpen \<Rightarrow> (False, t)
      | ParseError \<Rightarrow> (False, t)
      | NotObject \<Rightarrow> (False, t\<lparr>previousState := []\<rparr>)
      | Items d \<Rightarrow> load_state_items d (t\<lparr>previousState := []\<rparr>))"

text \<open>In the snapshot document a modification time is the time printed by the writer.\<close>

definition saveDatabaseState :: "libs \<Rightarrow> world \<Rightarrow> FileTracker \<Rightarrow> string \<Rightarrow> bool \<times> world" where
  "saveDatabaseState L w t stateFile =
     (if \<not> can_write w stateFile then (False, w)
      else (True, write_file w stateFile
                    (StateJson (map (\<lambda>(p, info).
                                       Some (info\<lparr>fi_lastModified :=
                                                    timestamp_roundtrip L (fi_lastModified info)\<rparr>))
                                    (currentState t)))))"

definition compareFileInfo :: "FileInfo \<Rightarrow> FileInfo \<Rightarrow> bool" where
  "compareFileInfo current previous =
     (if fi_size current \<noteq> fi_size previous then False
      else if fi_lastModified current \<noteq> fi_lastModified previous then False
      else if isDirectory current then True
      else fi_checksum current = fi_checksum previous)"

definition getChangedFiles :: "FileTracker \<Rightarrow> string list" where
  "getChangedFiles t =
     map fst (filter (\<lambda>(p, currentInfo).
                 case map_of (previousState t) p of
                   None \<Rightarrow> True
                 | Some previousInfo \<Rightarrow> \<not> compareFileInfo currentInfo previousInfo)
              (currentState t))"

definition getNewFiles :: "FileTracker \<Rightarrow> string list" where
  "getNewFiles t =
     map fst (filter (\<lambda>(p, currentInfo). map_of (previousState t) p = None)
              (currentState t))"

definition getDeletedFiles :: "FileTracker \<Rightarrow> string list" where
  "getDeletedFiles t =
     map fst (filter (\<lambda>(p, previousInfo). map_of (currentState t) p = None)
              (previousState t))"

definition getModifiedFiles :: "FileTracker \<Rightarrow> string list" where
  "getModifiedFiles t =
     map fst (filter (\<lambda>(p, currentInfo).
                 case map_of (previousState t) p of
                   None \<Rightarrow> False
                 | Some previousInfo \<Rightarrow> \<not> compareFileInfo currentInfo previousInfo)
              (currentState t))"

definition getTotalFiles :: "FileTracker \<Rightarrow> nat" where
  "getTotalFiles t = length (currentState t)"

section \<open>Persistence of the store\<close>

definition read_metadata_json :: "world \<Rightarrow> string \<Rightarrow> BackupInfo json_read" where
  "read_metadata_json w p =
     (case map_of (fs w) p of
        Some (File r c t) \<Rightarrow>
          (if \<not> r then CannotOpen
           else case c of
             Raw b \<Rightarrow> ParseError
           | MetadataJson d \<Rightarrow> Items d
           | StateJson d \<Rightarrow> Items []
           | OtherJson \<Rightarrow> NotObject)
      | _ \<Rightarrow> ParseError)"

text \<open>
  \<^verbatim>\<open>backupInfoFromJson\<close> catches what a field access throws and marks the record by an
  empty id; the loop of \<^verbatim>\<open>importFromJson\<close> skips records with an empty id.
\<close>

fun import_items :: "BackupInfo option list \<Rightarrow> backups \<Rightarrow> backups" where
  "import_items [] s = s"
| "import_items (None # items) s = import_items items s"
| "import_items (Some info # items) s =
     import_items items (if backupId info \<noteq> [] then AList.update (backupId info) info s else s)"

definition importFromJson :: "world \<Rightarrow> backups \<Rightarrow> string \<Rightarrow> bool \<times> backups" where
  "importFromJson w s filename =
     (if \<not> pathExists w filename then (True, s)
      else case read_metadata_json w filename of
        CannotOpen \<Rightarrow> (False, s)
      | ParseError \<Rightarrow> (False, s)
      | NotObject \<Rightarrow> (False, [])
      | Items d \<Rightarrow> (True, import_items d []))"

definition loadFromFile :: "world \<Rightarrow> backups \<Rightarrow> string \<Rightarrow> bool \<times> backups" where
  "loadFromFile w s filename = importFromJson w s filename"

text \<open>
  \<^verbatim>\<open>backupInfoToJson\<close> and \<^verbatim>\<open>fileEntryToJson\<close> print the two kinds of time of a record.
\<close>

definition backupInfoToJson :: "libs \<Rightarrow> BackupInfo \<Rightarrow> BackupInfo" where
  "backupInfoToJson L info =
     info\<lparr>timestamp := timestamp_roundtrip L (timestamp info),
          files := map (\<lambda>entry. entry\<lparr>fe_lastModified :=
                                          timestamp_roundtrip L (fe_lastModified entry)\<rparr>)
                       (files info)\<rparr>"

definition exportToJson :: "libs \<Rightarrow> world \<Rightarrow> backups \<Rightarrow> string \<Rightarrow> bool \<times> world" where
  "exportToJson L w s filename =
     (if \<not> can_write w filename then (False, w)
      else (True, write_file w filename
                    (MetadataJson (map (\<lambda>(k, info). Some (backupInfoToJson L info)) s))))"

section \<open>Transform pipeline (Encryptor, Compressor)\<close>

datatype KeySize = AES_128 | AES_192 | AES_256

fun key_bits :: "KeySize \<Rightarrow> nat" where
  "key_bits AES_128 = 128"
| "key_bits AES_192 = 192"
| "key_bits AES_256 = 256"

record Encryptor =
  key :: bytes
  iv :: bytes
  keySize :: KeySize

definition generateRandomBytes :: "world \<Rightarrow> nat \<Rightarrow> bytes \<times> world" where
  "generateRandomBytes w n =
     (if rand_ok w
      then (map (\<lambda>i. rand_source w (rand_drawn w + i)) [0..<n], w\<lparr>rand_drawn := rand_drawn w + n\<rparr>)
      else ([], w))"

definition initializeEncryption :: "Encryptor \<Rightarrow> world \<Rightarrow> bool \<times> Encryptor \<times> world" where
  "initializeEncryption e w =
     (case generateRandomBytes w 16 of
        (b, w') \<Rightarrow> (b \<noteq> [], e\<lparr>iv := b\<rparr>, w'))"

definition Encryptor_new :: "world \<Rightarrow> Encryptor \<times> world" where
  "Encryptor_new w =
     (case initializeEncryption \<lparr>key = [], iv = [], keySize = AES_256\<rparr> w of
        (ok, e, w') \<Rightarrow> (e, w'))"

text \<open>
  \<^verbatim>\<open>setKey\<close>: a key of 64 characters is decoded pairwise by \<^verbatim>\<open>std::stoul\<close> (base 16,
  truncated to a byte), which throws when a pair has no number (\<open>None\<close>: the exception
  leaves \<^verbatim>\<open>setKey\<close> with \<^verbatim>\<open>key_\<close> holding the bytes decoded so far); any other key is
  taken as it is, cut or padded with zero bytes to 32 bytes.
\<close>

fun decode_hex :: "libs \<Rightarrow> string \<Rightarrow> bytes \<Rightarrow> bytes \<times> bool" where
  "decode_hex L (a # b # cs) acc =
     (case stoul16 L [a, b] of
        None \<Rightarrow> (acc, False)
      | Some n \<Rightarrow> decode_hex L cs (acc @ [of_nat n]))"
| "decode_hex L cs acc = (acc, True)"

definition setKey :: "libs \<Rightarrow> Encryptor \<Rightarrow> string \<Rightarrow> bool option \<times> Encryptor" where
  "setKey L e keyStr =
     (if keyStr = [] then (Some False, e)
      else if length keyStr = 64 then
        (case decode_hex L keyStr [] of
           (k, ok) \<Rightarrow> (if ok then Some True else None, e\<lparr>key := k\<rparr>))
      else (Some True, e\<lparr>key := take 32 (map (\<lambda>c. of_char c) keyStr @ replicate 32 0)\<rparr>))"

definition generateRandomKey :: "Encryptor \<Rightarrow> world \<Rightarrow> KeySize \<Rightarrow> bool \<times> Encryptor \<times> world" where
  "generateRandomKey e w ks =
     (case generateRandomBytes w (key_bits ks div 8) of
        (k, w') \<Rightarrow> (k \<noteq> [], e\<lparr>keySize := ks, key := k\<rparr>, w'))"

text \<open>
  The calls that manage the key of an instance, and a sequence of them on an instance
  and the world.
\<close>

datatype key_op = SetKey string | GenerateRandomKey KeySize

fun key_ops :: "libs \<Rightarrow> key_op list \<Rightarrow> Encryptor \<times> world \<Rightarrow> Encryptor \<times> world" where
  "key_ops L [] st = st"
| "key_ops L (SetKey k # ops) st =
     (case st of (e, w) \<Rightarrow> key_ops L ops (snd (setKey L e k), w))"
| "key_ops L (GenerateRandomKey ks # ops) st =
     (case st of (e, w) \<Rightarrow>
        (case generateRandomKey e w ks of (r, e', w') \<Rightarrow> key_ops L ops (e', w')))"

definition encrypt_header :: bytes where
  "encrypt_header = map of_char ''ENCRYPT1''"

text \<open>
  \<^verbatim>\<open>encryptFileInternal\<close> on the bytes of the input, returning what has been written to
  the output: the tag, the instance's \<^verbatim>\<open>iv_\<close>, and the ciphertext when the cipher
  calls succeed. \<^verbatim>\<open>encryptFile\<close> and \<^verbatim>\<open>compressFile\<close> open the output with mode
  \<^verbatim>\<open>"wb"\<close> before the input is read, so an input that is the output is read as empty.
  \<^verbatim>\<open>encryptFileInternal\<close> does not look at the error indicator of its input,
  \<^verbatim>\<open>compressFileInternal\<close> does.
\<close>

definition encrypt_input :: "libs \<Rightarrow> world \<Rightarrow> string \<Rightarrow> string \<Rightarrow> bytes" where
  "encrypt_input L w inputFile outputFile =
     (case fopen_rb L w inputFile of
        None \<Rightarrow> []
      | Some (ok, b) \<Rightarrow> (if inputFile = outputFile then [] else b))"

definition encryptFileInternal :: "libs \<Rightarrow> Encryptor \<Rightarrow> bytes \<Rightarrow> bool \<times> bytes" where
  "encryptFileInternal L e input =
     (case aes_256_cbc_encrypt L (key e) (iv e) input of
        None \<Rightarrow> (False, encrypt_header @ iv e)
      | Some c \<Rightarrow> (True, encrypt_header @ iv e @ c))"

definition encryptFile :: "libs \<Rightarrow> Encryptor \<Rightarrow> world \<Rightarrow> string \<Rightarrow> string \<Rightarrow> bool \<times> world" where
  "encryptFile L e w inputFile outputFile =
     (if key e = [] then (False, w)
      else case fopen_rb L w inputFile of
        None \<Rightarrow> (False, w)
      | Some opened \<Rightarrow>
          (if \<not> can_write w outputFile then (False, w)
           else case encryptFileInternal L e (encrypt_input L w inputFile outputFile) of
             (result, out) \<Rightarrow> (result, write_file w outputFile (Raw out))))"

text \<open>\<^verbatim>\<open>encryptData\<close> is \<^verbatim>\<open>processData(data, true)\<close>: an empty vector on any failure.\<close>

definition encryptData :: "libs \<Rightarrow> Encryptor \<Rightarrow> bytes \<Rightarrow> bytes" where
  "encryptData L e data =
     (if key e = [] then []
      else case aes_256_cbc_encrypt L (key e) (iv e) data of
        None \<Rightarrow> []
      | Some c \<Rightarrow> c)"

text \<open>
  The first two reads of \<^verbatim>\<open>decryptFileInternal\<close>: the 8-byte tag, which must be
  \<^verbatim>\<open>ENCRYPT1\<close>, and the 16 bytes of the IV that follow it.
\<close>

definition read_header_iv :: "bytes \<Rightarrow> bytes option" where
  "read_header_iv b =
     (if length b < 8 \<or> take 8 b \<noteq> encrypt_header then None
      else if length (drop 8 b) < 16 then None
      else Some (take 16 (drop 8 b)))"

definition stored_iv :: "world \<Rightarrow> string \<Rightarrow> bytes option" where
  "stored_iv w p =
     (case open_read w p of
        Some (Raw b) \<Rightarrow> read_header_iv b
      | _ \<Rightarrow> None)"

record Compressor =
  totalBytesCompressed :: uintmax
  totalBytesOriginal :: uintmax

definition compressFile :: "libs \<Rightarrow> Compressor \<Rightarrow> world \<Rightarrow> string \<Rightarrow> string \<Rightarrow> int
                            \<Rightarrow> bool \<times> Compressor \<times> world" where
  "compressFile L c w inputFile outputFile level =
     (case fopen_rb L w inputFile of
        None \<Rightarrow> (False, c, w)
      | Some (readOk, src) \<Rightarrow>
          (if \<not> can_write w outputFile then (False, c, w)
           else if \<not> readOk then (False, c, write_file w outputFile (Raw []))
           else if inputFile = outputFile then
             (case zlib_deflate L level [] of
                None \<Rightarrow> (False, c, write_file w outputFile (Raw []))
              | Some z \<Rightarrow>
                  (True,
                   c\<lparr>totalBytesOriginal := totalBytesOriginal c + of_nat (length z),
                     totalBytesCompressed := totalBytesCompressed c + of_nat (length z)\<rparr>,
                   write_file w outputFile (Raw z)))
           else case zlib_deflate L level src of
             None \<Rightarrow> (False, c, write_file w outputFile (Raw []))
           | Some z \<Rightarrow>
               (True,
                c\<lparr>totalBytesOriginal := totalBytesOriginal c + of_nat (length src),
                  totalBytesCompressed := totalBytesCompressed c + of_nat (length z)\<rparr>,
                write_file w outputFile (Raw z))))"

section \<open>Backup orchestrator (BackupManager)\<close>

record BackupOptions =
  opt_sourcePath :: string
  destPath :: string
  enableCompression :: bool
  enableEncryption :: bool
  encryptionKey :: string
  incremental :: bool
  opt_compressionLevel :: int

record BackupManager =
  fileTracker :: FileTracker
  compressor :: Compressor
  encryptor :: Encryptor
  metadata :: backups

definition BackupManager_new :: "world \<Rightarrow> BackupManager \<times> world" where
  "BackupManager_new w =
     (case Encryptor_new w of
        (e, w') \<Rightarrow>
          (\<lparr>fileTracker = FileTracker_new,
            compressor = \<lparr>totalBytesCompressed = 0, totalBytesOriginal = 0\<rparr>,
            encryptor = e, metadata = []\<rparr>, w'))"

text \<open>\<^verbatim>\<open>std::sort\<close> on strings: lexicographic on the character codes.\<close>

fun string_less :: "string \<Rightarrow> string \<Rightarrow> bool" where
  "string_less [] [] = False"
| "string_less [] (y # ys) = True"
| "string_less (x # xs) [] = False"
| "string_less (x # xs) (y # ys) =
     (if (of_char x :: nat) < of_char y then True
      else if (of_char y :: nat) < of_char x then False
      else string_less xs ys)"

fun insert_sorted :: "string \<Rightarrow> string list \<Rightarrow> string list" where
  "insert_sorted x [] = [x]"
| "insert_sorted x (y # ys) = (if string_less y x then y # insert_sorted x ys else x # y # ys)"

definition sort_strings :: "string list \<Rightarrow> string list" where
  "sort_strings xs = foldr insert_sorted xs []"

definition listBackups :: "world \<Rightarrow> string \<Rightarrow> string list" where
  "listBackups w backupRoot =
     (if \<not> pathExists w backupRoot then []
      else case directory_iterator w backupRoot of
        None \<Rightarrow> []
      | Some entries \<Rightarrow>
          sort_strings
            (map fst (filter (\<lambda>(p, n). is_directory w p
                                 \<and> pathExists w (joinPaths p ''backup_metadata.json''))
                             entries)))"

definition generateBackupPath :: "libs \<Rightarrow> world \<Rightarrow> string \<Rightarrow> string" where
  "generateBackupPath L w basePath = joinPaths basePath (backup_dir_name L (clock w))"

definition createBackupDirectory :: "world \<Rightarrow> string \<Rightarrow> bool \<times> world" where
  "createBackupDirectory w p = createDirectoryRecursive w p"

definition copyFileWithOptions :: "libs \<Rightarrow> BackupManager \<Rightarrow> world \<Rightarrow> string \<Rightarrow> string
                                   \<Rightarrow> BackupOptions \<Rightarrow> bool \<times> BackupManager \<times> world" where
  "copyFileWithOptions L m w src dest options =
     (if enableCompression options \<and> enableEncryption options then
        (case compressFile L (compressor m) w src (dest @ ''.tmp'') (opt_compressionLevel options) of
           (ok, c, w1) \<Rightarrow>
             (if \<not> ok then (False, m\<lparr>compressor := c\<rparr>, w1)
              else case encryptFile L (encryptor m) w1 (dest @ ''.tmp'') dest of
                (ok2, w2) \<Rightarrow> (ok2, m\<lparr>compressor := c\<rparr>, remove_file w2 (dest @ ''.tmp''))))
      else if enableCompression options then
        (case compressFile L (compressor m) w src dest (opt_compressionLevel options) of
           (ok, c, w1) \<Rightarrow> (ok, m\<lparr>compressor := c\<rparr>, w1))
      else if enableEncryption options then
        (case encryptFile L (encryptor m) w src dest of
           (ok, w1) \<Rightarrow> (ok, m, w1))
      else
        (case copyFile w src dest of
           (ok, w1) \<Rightarrow> (ok, m, w1)))"

text \<open>
  One round of the copy loops of \<^verbatim>\<open>createBackup\<close> and \<^verbatim>\<open>createIncrementalBackup\<close>,
  on the loop state (manager, world, \<^verbatim>\<open>backupInfo\<close>): the file at \<open>fullSourcePath\<close> is
  copied below \<open>backupDir\<close> and its entry is appended. The flag \<open>False\<close> is the early
  \<^verbatim>\<open>return false\<close>, with the state reached.
\<close>

definition backup_one_file :: "libs \<Rightarrow> BackupOptions \<Rightarrow> string \<Rightarrow> string
     \<Rightarrow> BackupManager \<times> world \<times> BackupInfo \<Rightarrow> bool \<times> BackupManager \<times> world \<times> BackupInfo" where
  "backup_one_file L options backupDir fullSourcePath st =
     (case st of (m, w, backupInfo) \<Rightarrow>
        (let relPath = getRelativePath (opt_sourcePath options) fullSourcePath;
             dest = joinPaths backupDir relPath;
             w1 = snd (createDirectoryRecursive w (getParentDirectory dest))
         in case copyFileWithOptions L m w1 fullSourcePath dest options of
              (ok, m2, w2) \<Rightarrow>
                (if \<not> ok then (False, m2, w2, backupInfo)
                 else case getFileModificationTime w2 fullSourcePath of
                   (mtime, w3) \<Rightarrow>
                     (let fileEntry =
                            \<lparr>relativePath = relPath,
                             fe_checksum = calculateSHA256 L w3 fullSourcePath,
                             fe_size = getFileSize L w2 fullSourcePath,
                             fe_lastModified = mtime,
                             fe_compressed = enableCompression options,
                             fe_encrypted = enableEncryption options,
                             fe_compressedSize = getFileSize L w3 dest\<rparr>
                      in (True, m2, w3,
                           backupInfo\<lparr>files := files backupInfo @ [fileEntry],
                                      totalSize := totalSize backupInfo + fe_size fileEntry,
                                      compressedSize := compressedSize backupInfo
                                                        + fe_compressedSize fileEntry\<rparr>)))))"

fun backup_files :: "libs \<Rightarrow> BackupOptions \<Rightarrow> string \<Rightarrow> string list
     \<Rightarrow> BackupManager \<times> world \<times> BackupInfo \<Rightarrow> bool \<times> BackupManager \<times> world \<times> BackupInfo" where
  "backup_files L options backupDir [] st = (True, st)"
| "backup_files L options backupDir (p # ps) st =
     (case backup_one_file L options backupDir p st of
        (ok, st') \<Rightarrow>
          (if \<not> ok then (False, st') else backup_files L options backupDir ps st'))"

text \<open>
  The end of both backup operations: the record is put into the manager's store, the
  store and the tracker's current state are written into the backup directory. The three
  results are not looked at by the source.
\<close>

definition save_backup :: "libs \<Rightarrow> string \<Rightarrow> BackupManager \<times> world \<times> BackupInfo
                           \<Rightarrow> BackupManager \<times> world" where
  "save_backup L backupDir st =
     (case st of (m, w, backupInfo) \<Rightarrow>
        (let m1 = m\<lparr>metadata := snd (createBackupInfo (metadata m) backupInfo)\<rparr>;
             w1 = snd (exportToJson L w (metadata m1)
                         (joinPaths backupDir ''backup_metadata.json''));
             w2 = snd (saveDatabaseState L w1 (fileTracker m1)
                         (joinPaths backupDir ''file_state.db''))
         in (m1, w2)))"

definition createBackup :: "libs \<Rightarrow> BackupManager \<Rightarrow> world \<Rightarrow> BackupOptions
                            \<Rightarrow> bool \<times> BackupManager \<times> world" where
  "createBackup L m w options =
     (if \<not> pathExists w (opt_sourcePath options) then (False, m, w)
      else
        (let backupDir = generateBackupPath L w (destPath options) in
         case createBackupDirectory w backupDir of
           (dirOk, w1) \<Rightarrow>
             (if \<not> dirOk then (False, m, w1)
              else case scanDirectory L w1 (fileTracker m) (opt_sourcePath options) of
                (scanOk, t, ws) \<Rightarrow>
                  (if \<not> scanOk then (False, m\<lparr>fileTracker := t\<rparr>, ws)
                   else case generateUUID ws of
                     (newId, w2) \<Rightarrow>
                       (let backupInfo =
                              \<lparr>backupId = newId, backupType = ''full'', timestamp = clock w2,
                               sourcePath = opt_sourcePath options, parentBackupId = [],
                               files = [], totalSize = 0, compressedSize = 0,
                               encrypted = enableEncryption options,
                               encryptionMethod =
                                 (if enableEncryption options then ''AES-256'' else []),
                               compressionMethod =
                                 (if enableCompression options then ''zlib'' else ''none''),
                               compressionLevel = opt_compressionLevel options\<rparr>;
                            m1 = m\<lparr>fileTracker := t\<rparr>
                        in case (if \<not> enableEncryption options then (True, encryptor m1, w2)
                                 else if encryptionKey options \<noteq> []
                                 then (case setKey L (encryptor m1) (encryptionKey options) of
                                         (r, e) \<Rightarrow> (r \<noteq> None, e, w2))
                                 else (case generateRandomKey (encryptor m1) w2 AES_256 of
                                         (r, e, w') \<Rightarrow> (True, e, w'))) of
                             (noThrow, e, w3) \<Rightarrow>
                               (if \<not> noThrow then (False, m1\<lparr>encryptor := e\<rparr>, w3)
                                else case recursive_directory_iterator w3 (opt_sourcePath options) of
                                  None \<Rightarrow> (False, m1\<lparr>encryptor := e\<rparr>, w3)
                                | Some entries \<Rightarrow>
                                    (case backup_files L options backupDir
                                            (map fst (filter (\<lambda>(p, n). is_regular_node n) entries))
                                            (m1\<lparr>encryptor := e\<rparr>, w3, backupInfo) of
                                       (ok, m4, w4, info4) \<Rightarrow>
                                         (if \<not> ok then (False, m4, w4)
                                          else case save_backup L backupDir (m4, w4, info4) of
                                            (m5, w5) \<Rightarrow> (True, m5, w5)))))))))"


definition createIncrementalBackup :: "libs \<Rightarrow> BackupManager \<Rightarrow> world \<Rightarrow> BackupOptions
                                       \<Rightarrow> bool \<times> BackupManager \<times> world" where
  "createIncrementalBackup L m w options =
     (let backups = listBackups w (destPath options) in
      case (if backups = [] then (fileTracker m, [], w)
            else
              (let latestBackup = last backups;
                   stateFile = joinPaths latestBackup ''file_state.db''
               in if pathExists w stateFile then
                    (let t' = snd (loadPreviousState w (fileTracker m) stateFile);
                         metadataFile = joinPaths latestBackup ''backup_metadata.json''
                     in if pathExists w metadataFile then
                          (let tempMetadata = snd (loadFromFile w [] metadataFile)
                           in case generateUUID w of (u, w') \<Rightarrow> (t', u, w'))
                        else (t', [], w))
                  else (fileTracker m, [], w))) of
        (t0, parentBackupId', w0) \<Rightarrow>
          (case scanDirectory L w0 t0 (opt_sourcePath options) of
             (scanOk, t1, ws) \<Rightarrow>
               (if \<not> scanOk then (False, m\<lparr>fileTracker := t1\<rparr>, ws)
                else
                  (let filesToBackup = getChangedFiles t1 @ getNewFiles t1 @ getModifiedFiles t1;
                       m1 = m\<lparr>fileTracker := t1\<rparr>
                   in if filesToBackup = [] then (True, m1, ws)
                      else
                        (let backupDir = generateBackupPath L ws (destPath options) in
                         case createBackupDirectory ws backupDir of
                           (dirOk, w1) \<Rightarrow>
                             (if \<not> dirOk then (False, m1, w1)
                              else case generateUUID w1 of
                                (newId, w2) \<Rightarrow>
                                  (let backupInfo =
                                         \<lparr>backupId = newId, backupType = ''incremental'',
                                          timestamp = clock w2,
                                          sourcePath = opt_sourcePath options,
                                          parentBackupId = parentBackupId',
                                          files = [], totalSize = 0, compressedSize = 0,
                                          encrypted = enableEncryption options,
                                          encryptionMethod = [],
                                          compressionMethod =
                                            (if enableCompression options then ''zlib'' else ''none''),
                                          compressionLevel = opt_compressionLevel options\<rparr>
                                   in case backup_files L options backupDir
                                             (map (joinPaths (opt_sourcePath options)) filesToBackup)
                                             (m1, w2, backupInfo) of
                                        (ok, m4, w4, info4) \<Rightarrow>
                                          (if \<not> ok then (False, m4, w4)
                                           else case save_backup L backupDir (m4, w4, info4) of
                                             (m5, w5) \<Rightarrow> (True, m5, w5)))))))))"

definition restoreFileInternal :: "world \<Rightarrow> string \<Rightarrow> string \<Rightarrow> bool \<times> world" where
  "restoreFileInternal w sourcePath' destPath' = copyFile w sourcePath' destPath'"

fun restore_files :: "string \<Rightarrow> string \<Rightarrow> string list \<Rightarrow> world \<Rightarrow> bool \<times> world" where
  "restore_files backupPath restorePath [] w = (True, w)"
| "restore_files backupPath restorePath (p # ps) w =
     (let relPath = getRelativePath backupPath p;
          dest = joinPaths restorePath relPath;
          w1 = snd (createDirectoryRecursive w (getParentDirectory dest))
      in case restoreFileInternal w1 p dest of
           (ok, w2) \<Rightarrow>
             (if \<not> ok then (False, w2)
              else restore_files backupPath restorePath ps w2))"

definition restoreBackup :: "world \<Rightarrow> string \<Rightarrow> string \<Rightarrow> bool \<times> world" where
  "restoreBackup w backupPath restorePath =
     (if \<not> pathExists w backupPath then (False, w)
      else if \<not> pathExists w (joinPaths backupPath ''backup_metadata.json'') then (False, w)
      else if \<not> fst (loadFromFile w [] (joinPaths backupPath ''backup_metadata.json''))
      then (False, w)
      else case createDirectoryRecursive w restorePath of
        (dirOk, w1) \<Rightarrow>
          (if \<not> dirOk then (False, w1)
           else case recursive_directory_iterator w1 backupPath of
             None \<Rightarrow> (False, w1)
           | Some entries \<Rightarrow>
               restore_files backupPath restorePath
                 (map fst (filter (\<lambda>(p, n). is_regular_node n
                                      \<and> getFileName p \<noteq> ''backup_metadata.json''
                                      \<and> getFileName p \<noteq> ''file_state.db'')
                                  entries))
                 w1))"

section \<open>Sample data\<close>

text \<open>A record with the given id, type and parent id, used at the concrete inputs below.\<close>

definition sample_record :: "string \<Rightarrow> string \<Rightarrow> string \<Rightarrow> BackupInfo" where
  "sample_record i t p =
     \<lparr>backupId = i, backupType = t, timestamp = 0, sourcePath = ''/src'',
      parentBackupId = p, files = [], totalSize = 0, compressedSize = 0,
      encrypted = False, encryptionMethod = [], compressionMethod = ''none'',
      compressionLevel = 6\<rparr>"

text \<open>
  Stand-ins for the library functions, used only to run the model on concrete inputs: a
  hash that writes the bytes in hexadecimal, a deflate that stores, a cipher with the
  padding of CBC that adds one to every byte, a directory name that prints the time of
  day. A tick of the clock is a millisecond, and a time printed into a document keeps
  its whole seconds. Nothing below depends on what they compute.
\<close>

definition hex_digit :: "nat \<Rightarrow> char" where
  "hex_digit n = ''0123456789abcdef'' ! (n mod 16)"

definition hex_val :: "char \<Rightarrow> nat option" where
  "hex_val c =
     (let n = (of_char c :: nat)
      in if 48 \<le> n \<and> n \<le> 57 then Some (n - 48)
         else if 97 \<le> n \<and> n \<le> 102 then Some (n - 87)
         else if 65 \<le> n \<and> n \<le> 70 then Some (n - 55)
         else None)"

definition two_digits :: "nat \<Rightarrow> string" where
  "two_digits n = [hex_digit (n div 10 mod 10), hex_digit (n mod 10)]"

definition demo_libs :: libs where
  "demo_libs =
     \<lparr>sha256_hex = (\<lambda>b. concat (map (\<lambda>x. [hex_digit (unat x div 16), hex_digit (unat x)]) b)),
      zlib_deflate = (\<lambda>level b. if 0 \<le> level \<and> level \<le> 9 then Some ([0x78, 0x9C] @ b) else None),
      aes_256_cbc_encrypt =
        (\<lambda>k v d. Some (map (\<lambda>x. x + 1) d
                         @ replicate (16 - length d mod 16) (of_nat (16 - length d mod 16)))),
      stoul16 = (\<lambda>s. case s of
                   [a, b] \<Rightarrow> (case hex_val a of
                                None \<Rightarrow> None
                              | Some x \<Rightarrow> (case hex_val b of None \<Rightarrow> Some x
                                                             | Some y \<Rightarrow> Some (16 * x + y)))
                 | _ \<Rightarrow> None),
      backup_dir_name = (\<lambda>t. ''backup_19700101_'' @ two_digits (nat (t div 3600000))
                                @ two_digits (nat (t div 60000 mod 60))
                                @ two_digits (nat (t div 1000 mod 60))),
      json_text = (\<lambda>c. map of_char ''{}''),
      timestamp_roundtrip = (\<lambda>t. t - t mod 1000)\<rparr>"

text \<open>
  A world with a source tree holding the 10-byte file \<^verbatim>\<open>/src/a.txt\<close> and an empty
  destination \<^verbatim>\<open>/dst\<close>, 30 seconds after midnight; the random sources give \<^verbatim>\<open>uuid-0\<close>,
  \<^verbatim>\<open>uuid-1\<close>, ... and the bytes 0, 1, 2, ..., and the conversions of a file time are
  off by one tick and by two ticks in turn.
\<close>

definition world0 :: world where
  "world0 =
     \<lparr>fs = [(''/src'', Dir 10000),
             (''/src/a.txt'', File True (Raw (map of_char ''0123456789'')) 10500),
             (''/dst'', Dir 20000)],
      clock = 30000,
      uuid_source = (\<lambda>n. ''uuid-'' @ [hex_digit n]),
      uuids_drawn = 0,
      rand_source = (\<lambda>n. of_nat n),
      rand_drawn = 0,
      rand_ok = True,
      conv_error = (\<lambda>n. if n mod 2 = 0 then 1 else 2),
      conversions = 0\<rparr>"

definition plain_options :: BackupOptions where
  "plain_options =
     \<lparr>opt_sourcePath = ''/src'', destPath = ''/dst'', enableCompression = False,
      enableEncryption = False, encryptionKey = [], incremental = False,
      opt_compressionLevel = 6\<rparr>"

definition enc_options :: BackupOptions where
  "enc_options = plain_options\<lparr>enableEncryption := True, encryptionKey := ''secret''\<rparr>"

text \<open>A full backup of the source by a new manager, at second 30.\<close>

definition full_run :: "bool \<times> BackupManager \<times> world" where
  "full_run =
     (case BackupManager_new world0 of (m, w) \<Rightarrow> createBackup demo_libs m w plain_options)"

text \<open>
  Then \<^verbatim>\<open>a.txt\<close> grows to 15 bytes in second 50, and the clock moves on to second 100.
\<close>

definition edit_a :: "world \<Rightarrow> world" where
  "edit_a w =
     w\<lparr>fs := AList.update ''/src/a.txt''
                (File True (Raw (map of_char ''0123456789abcde'')) 50500) (fs w),
       clock := 100000\<rparr>"

text \<open>An incremental backup by the manager that made the full backup.\<close>

definition incremental_run :: "bool \<times> BackupManager \<times> world" where
  "incremental_run =
     (case full_run of
        (ok, m, w) \<Rightarrow> createIncrementalBackup demo_libs m (edit_a w) plain_options)"

text \<open>An incremental backup by a new manager, as a new run of the program makes it.\<close>

definition fresh_incremental_run :: "bool \<times> BackupManager \<times> world" where
  "fresh_incremental_run =
     (case full_run of
        (ok, m, w) \<Rightarrow>
          (case BackupManager_new (edit_a w) of
             (m', w') \<Rightarrow> createIncrementalBackup demo_libs m' w' plain_options))"

text \<open>An encrypted full backup of the source, restored into \<^verbatim>\<open>/out\<close>.\<close>

definition restore_run :: "bool \<times> bool \<times> world" where
  "restore_run =
     (case BackupManager_new world0 of
        (m, w) \<Rightarrow>
          (case createBackup demo_libs m w enc_options of
             (ok, m', w') \<Rightarrow>
               (case restoreBackup w' ''/dst/backup_19700101_000030'' ''/out'' of
                  (ok', w'') \<Rightarrow> (ok, ok', w''))))"

text \<open>
  An encryptor constructed in \<^const>\<open>world0\<close> and given a key, and the world after its
  construction.
\<close>

definition demo_encryptor :: Encryptor where
  "demo_encryptor = snd (setKey demo_libs (fst (Encryptor_new world0)) ''secret'')"

definition demo_world :: world where
  "demo_world = snd (Encryptor_new world0)"

text \<open>The world after \<^const>\<open>demo_encryptor\<close> has encrypted \<^verbatim>\<open>a.txt\<close> twice.\<close>

definition two_encryptions :: world where
  "two_encryptions =
     snd (encryptFile demo_libs demo_encryptor
            (snd (encryptFile demo_libs demo_encryptor demo_world ''/src/a.txt'' ''/dst/x''))
            ''/src/a.txt'' ''/dst/y'')"

text \<open>
  A stand-in for the arithmetic of \<^verbatim>\<open>double\<close>, exact on the values used below.
\<close>

definition exact_doubles :: "real double_ops" where
  "exact_doubles =
     \<lparr>static_cast_double = (\<lambda>n. real (unat n)), quotient = (\<lambda>a b. a / b), zero_literal = 0\<rparr>"

definition sample_info :: FileInfo where
  "sample_info =
     \<lparr>path = ''/src/a.txt'', fi_size = 10, fi_lastModified = 10000,
      fi_checksum = ''30313233343536373839'', isDirectory = False\<rparr>"

section \<open>Properties of the backup chain store\<close>

subsection \<open>Creating a record\<close>

text \<open>
  C4, as stated: \<^verbatim>\<open>create(r)\<close> fails when a record with the id of \<open>r\<close> is already
  present. On the code it does not: \<^verbatim>\<open>createBackupInfo\<close> only validates the record and
  then assigns \<^verbatim>\<open>backups_[info.backupId]\<close>. With a record stored under \<^verbatim>\<open>"a"\<close>, creating
  a valid record with the same id succeeds and replaces the stored one.
\<close>

theorem createBackupInfo_duplicate_counterexample:
  "map_of [(''a'', sample_record ''a'' ''full'' [])] (backupId (sample_record ''a'' ''incremental'' ''p''))
     \<noteq> None
   \<and> createBackupInfo [(''a'', sample_record ''a'' ''full'' [])] (sample_record ''a'' ''incremental'' ''p'')
     = (True, [(''a'', sample_record ''a'' ''incremental'' ''p'')])
   \<and> [(''a'', sample_record ''a'' ''incremental'' ''p'')] \<noteq> [(''a'', sample_record ''a'' ''full'' [])]"
  by (simp add: createBackupInfo_def validateBackupInfo_def sample_record_def)

text \<open>
  C4, amended: \<^verbatim>\<open>create(r)\<close> returns failure exactly when \<open>r\<close> fails validation (empty
  id, type or source path, or a type that is neither \<^verbatim>\<open>"full"\<close> nor \<^verbatim>\<open>"incremental"\<close>), and
  then the store is unchanged; otherwise it returns success and the store maps the id of
  \<open>r\<close> to \<open>r\<close>, whether or not the id was present before, and every other id as before.
\<close>

theorem createBackupInfo_validates_then_stores:
  "(backupId r = [] \<or> backupType r = [] \<or> sourcePath r = []
      \<or> (backupType r \<noteq> ''full'' \<and> backupType r \<noteq> ''incremental'')
      \<longrightarrow> createBackupInfo s r = (False, s))
   \<and> (\<not> (backupId r = [] \<or> backupType r = [] \<or> sourcePath r = []
      \<or> (backupType r \<noteq> ''full'' \<and> backupType r \<noteq> ''incremental''))
      \<longrightarrow> fst (createBackupInfo s r) = True
        \<and> map_of (snd (createBackupInfo s r)) = (map_of s)(backupId r \<mapsto> r))"
  by (auto simp: createBackupInfo_def validateBackupInfo_def update_conv')

theorem createBackupInfo_validates_then_stores_witness:
  "createBackupInfo [(''a'', sample_record ''a'' ''full'' [])] (sample_record ''b'' ''differential'' [])
     = (False, [(''a'', sample_record ''a'' ''full'' [])])
   \<and> fst (createBackupInfo [(''a'', sample_record ''a'' ''full'' [])] (sample_record ''b'' ''incremental'' ''a''))
   \<and> map_of (snd (createBackupInfo [(''a'', sample_record ''a'' ''full'' [])]
                                      (sample_record ''b'' ''incremental'' ''a''))) ''b''
     = Some (sample_record ''b'' ''incremental'' ''a'')"
  using createBackupInfo_validates_then_stores
          [of "sample_record ''b'' ''differential'' []" "[(''a'', sample_record ''a'' ''full'' [])]"]
        createBackupInfo_validates_then_stores
          [of "sample_record ''b'' ''incremental'' ''a''" "[(''a'', sample_record ''a'' ''full'' [])]"]
  by (simp add: sample_record_def)

subsection \<open>Chain traversal\<close>

text \<open>
  C5: in a store that holds a full backup \<open>F\<close> that is a root (its parent id is empty
  or names no record), a record \<open>I1\<close> with parent \<open>F\<close> and a record \<open>I2\<close> with parent
  \<open>I1\<close>, \<^verbatim>\<open>getBackupChain(I2)\<close> is exactly \<open>[I2, I1, F]\<close> and \<^verbatim>\<open>getFullBackupId(I2)\<close> is
  \<open>F\<close>. The ids are not empty, as the ids of stored records are.
\<close>

theorem getBackupChain_three:
  assumes F: "map_of s F = Some f" and I1: "map_of s I1 = Some i1"
    and I2: "map_of s I2 = Some i2"
    and tf: "backupType f = ''full''"
    and p1: "parentBackupId i1 = F" and p2: "parentBackupId i2 = I1"
    and root: "parentBackupId f = [] \<or> map_of s (parentBackupId f) = None"
    and ne: "F \<noteq> []" "I1 \<noteq> []" "I2 \<noteq> []"
  shows "getBackupChain s I2 = [I2, I1, F] \<and> getFullBackupId s I2 = F"
proof -
  have d1: "I1 \<noteq> F" using F I1 p1 root ne by auto
  have d2: "I2 \<noteq> F" using F I1 I2 p2 root ne by auto
  have l3: "getBackupChain_loop s [I2, I1] F = [I2, I1, F]"
    using root F ne
    by (subst getBackupChain_loop.simps)
       (auto simp: getBackupChain_loop.simps [of s "[I2, I1, F]"])
  have l2: "getBackupChain_loop s [I2] I1 = [I2, I1, F]"
    using I1 p1 ne d2 l3 by (subst getBackupChain_loop.simps) simp
  have l1: "getBackupChain_loop s [] I2 = [I2, I1, F]"
    using I2 p2 ne l2 by (subst getBackupChain_loop.simps) simp
  have c: "getBackupChain s I2 = [I2, I1, F]" by (simp add: getBackupChain_def l1)
  show ?thesis using c F tf by (simp add: getFullBackupId_def)
qed

theorem getBackupChain_three_witness:
  "getBackupChain [(''F'', sample_record ''F'' ''full'' []),
                   (''I1'', sample_record ''I1'' ''incremental'' ''F''),
                   (''I2'', sample_record ''I2'' ''incremental'' ''I1'')] ''I2''
     = [''I2'', ''I1'', ''F'']
   \<and> getFullBackupId [(''F'', sample_record ''F'' ''full'' []),
                      (''I1'', sample_record ''I1'' ''incremental'' ''F''),
                      (''I2'', sample_record ''I2'' ''incremental'' ''I1'')] ''I2'' = ''F''"
  by (rule getBackupChain_three
        [of _ _ "sample_record ''F'' ''full'' []"
            _ "sample_record ''I1'' ''incremental'' ''F''"
            _ "sample_record ''I2'' ''incremental'' ''I1''"])
     (simp_all add: sample_record_def)

text \<open>
  C6: \<^verbatim>\<open>getBackupChain\<close> returns on every store (the loop is a total function, by the
  termination proof above), but on a record that is its own parent the returned chain
  holds the id twice: the guard compares the parent with the chain without its last
  element, so the repeat is found one round late.
\<close>

theorem getBackupChain_self_parent:
  "getBackupChain [(''A'', sample_record ''A'' ''incremental'' ''A'')] ''A'' = [''A'', ''A'']"
  by (simp add: getBackupChain_def getBackupChain_loop.simps sample_record_def)

text \<open>On a cycle of two records the guard does stop the walk before the repeat.\<close>

lemma getBackupChain_two_cycle:
  "getBackupChain [(''A'', sample_record ''A'' ''incremental'' ''B''),
                   (''B'', sample_record ''B'' ''incremental'' ''A'')] ''A'' = [''A'', ''B'']"
  by (simp add: getBackupChain_def getBackupChain_loop.simps sample_record_def)

subsection \<open>Pruning orphans\<close>

lemma fold_delete_filter:
  "fold AList.delete ks s = filter (\<lambda>(k, v). k \<notin> set ks) s"
proof (induction ks arbitrary: s)
  case Nil
  then show ?case by simp
next
  case (Cons a ks)
  have "filter (\<lambda>(k, v). k \<notin> set ks) (AList.delete a s)
      = filter (\<lambda>(k, v). k \<notin> set (a # ks)) s"
    by (induction s) (auto simp: AList.delete_eq)
  with Cons show ?case by simp
qed

lemma cleanup_filter:
  "snd (cleanupOrphanedEntries s)
     = filter (\<lambda>(k, v). k \<notin> fst ` {(k, info). (k, info) \<in> set s \<and> orphaned s info}) s"
proof -
  have "set (map fst (filter (\<lambda>(k, info). orphaned s info) s))
      = fst ` {(k, info). (k, info) \<in> set s \<and> orphaned s info}"
    by (auto simp: image_iff)
  then show ?thesis
    by (simp add: cleanupOrphanedEntries_def fold_delete_filter)
qed

lemma map_of_filter_removed:
  "x \<in> R \<Longrightarrow> map_of (filter (\<lambda>(k, v). k \<notin> R) s) x = None"
  by (induction s) auto

text \<open>
  In any store (with one record for each key), an incremental record whose parent is an
  orphaned record is still in the store after \<^verbatim>\<open>cleanupOrphanedEntries\<close>, and is orphaned
  there: its parent was present when the keys were collected and is erased by the second
  loop.
\<close>

lemma cleanupOrphanedEntries_keeps_child_of_orphan:
  assumes d: "distinct (map fst s)"
    and o: "(k1, i1) \<in> set s" "orphaned s i1"
    and c: "(k2, i2) \<in> set s" "backupType i2 = ''incremental''" "parentBackupId i2 = k1"
           "k1 \<noteq> []"
  shows "(k2, i2) \<in> set (snd (cleanupOrphanedEntries s))
         \<and> orphaned (snd (cleanupOrphanedEntries s)) i2"
proof -
  let ?R = "fst ` {(k, info). (k, info) \<in> set s \<and> orphaned s info}"
  have s': "snd (cleanupOrphanedEntries s) = filter (\<lambda>(k, v). k \<notin> ?R) s"
    by (rule cleanup_filter)
  have "map_of s k1 = Some i1" using d o(1) by simp
  then have no2: "\<not> orphaned s i2" using c by (simp add: orphaned_def)
  have k2: "k2 \<notin> ?R"
  proof
    assume "k2 \<in> ?R"
    then obtain j where j: "(k2, j) \<in> set s" "orphaned s j" by auto
    with d c(1) have "j = i2" by (meson eq_key_imp_eq_value)
    with j no2 show False by simp
  qed
  have k1: "k1 \<in> ?R" using o by force
  have "map_of (snd (cleanupOrphanedEntries s)) k1 = None"
    unfolding s' using k1 by (rule map_of_filter_removed)
  then have "orphaned (snd (cleanupOrphanedEntries s)) i2"
    using c by (simp add: orphaned_def)
  moreover have "(k2, i2) \<in> set (snd (cleanupOrphanedEntries s))"
    unfolding s' using c(1) k2 by auto
  ultimately show ?thesis by simp
qed

text \<open>
  C7: the store holds the incremental \<open>I1\<close>, whose parent \<open>F\<close> is absent, and the
  incremental \<open>I2\<close> with parent \<open>I1\<close>. The first run of \<^verbatim>\<open>cleanupOrphanedEntries\<close>
  removes \<open>I1\<close> and leaves \<open>I2\<close>, an incremental backup whose parent no longer exists;
  the second run removes \<open>I2\<close>. Running twice does not give the store that running once
  gives.
\<close>

theorem cleanupOrphanedEntries_leaves_orphan:
  "snd (cleanupOrphanedEntries
      [(''I1'', sample_record ''I1'' ''incremental'' ''F''),
       (''I2'', sample_record ''I2'' ''incremental'' ''I1'')])
    = [(''I2'', sample_record ''I2'' ''incremental'' ''I1'')]
  \<and> orphaned [(''I2'', sample_record ''I2'' ''incremental'' ''I1'')]
              (sample_record ''I2'' ''incremental'' ''I1'')
  \<and> snd (cleanupOrphanedEntries (snd (cleanupOrphanedEntries
      [(''I1'', sample_record ''I1'' ''incremental'' ''F''),
       (''I2'', sample_record ''I2'' ''incremental'' ''I1'')]))) = []"
  by (simp add: cleanupOrphanedEntries_def orphaned_def AList.delete_eq sample_record_def)

subsection \<open>Compression ratio\<close>

text \<open>
  C10: \<^verbatim>\<open>getCompressionRatio\<close> never reaches the division with the divisor \<^verbatim>\<open>0.0\<close> (its
  result is never \<open>None\<close>); it returns \<^verbatim>\<open>0.0\<close> when the id is not stored or the
  record's \<^verbatim>\<open>totalSize\<close> is 0, and otherwise the quotient, in the arithmetic of
  \<^verbatim>\<open>double\<close>, of \<^verbatim>\<open>compressedSize\<close> and \<^verbatim>\<open>totalSize\<close> converted to \<^verbatim>\<open>double\<close>. The one
  fact about that arithmetic that is used: the conversion of a value that is not 0 is
  not \<^verbatim>\<open>0.0\<close>.
\<close>

theorem getCompressionRatio_total:
  assumes nz: "\<And>n. n \<noteq> 0 \<Longrightarrow> static_cast_double D n \<noteq> zero_literal D"
  shows "getCompressionRatio D s i \<noteq> None
   \<and> (map_of s i = None \<longrightarrow> getCompressionRatio D s i = Some (zero_literal D))
   \<and> (\<forall>info. map_of s i = Some info \<and> totalSize info = 0
          \<longrightarrow> getCompressionRatio D s i = Some (zero_literal D))
   \<and> (\<forall>info. map_of s i = Some info \<and> totalSize info \<noteq> 0
          \<longrightarrow> getCompressionRatio D s i
              = Some (quotient D (static_cast_double D (compressedSize info))
                                 (static_cast_double D (totalSize info))))"
  using nz
  by (auto simp: getCompressionRatio_def fdiv_def word_greater_zero_iff split: option.splits)

theorem getCompressionRatio_total_witness:
  "getCompressionRatio exact_doubles
       [(''a'', (sample_record ''a'' ''full'' [])\<lparr>totalSize := 4, compressedSize := 1\<rparr>),
        (''z'', sample_record ''z'' ''full'' [])] ''a'' = Some (1 / 4)
   \<and> getCompressionRatio exact_doubles
       [(''a'', (sample_record ''a'' ''full'' [])\<lparr>totalSize := 4, compressedSize := 1\<rparr>),
        (''z'', sample_record ''z'' ''full'' [])] ''z'' = Some 0
   \<and> getCompressionRatio exact_doubles
       [(''a'', (sample_record ''a'' ''full'' [])\<lparr>totalSize := 4, compressedSize := 1\<rparr>),
        (''z'', sample_record ''z'' ''full'' [])] ''q'' = Some 0"
proof -
  have nz: "\<And>n. n \<noteq> 0
              \<Longrightarrow> static_cast_double exact_doubles n \<noteq> zero_literal exact_doubles"
    by (simp add: exact_doubles_def unsigned_eq_0_iff)
  let ?s = "[(''a'', (sample_record ''a'' ''full'' [])\<lparr>totalSize := 4, compressedSize := 1\<rparr>),
             (''z'', sample_record ''z'' ''full'' [])]"
  show ?thesis
    using getCompressionRatio_total [of exact_doubles ?s "''a''", OF nz]
          getCompressionRatio_total [of exact_doubles ?s "''z''", OF nz]
          getCompressionRatio_total [of exact_doubles ?s "''q''", OF nz]
    by (simp add: sample_record_def exact_doubles_def)
qed

section \<open>Properties of loading\<close>

text \<open>
  C8, as stated: whatever the in-memory state was, loading from a path that does not
  exist returns success and leaves the loaded state empty. On the code both loaders
  return before they clear anything: a tracker whose previous generation holds one
  record, and a store that holds one record, still hold them after a successful load
  from a missing path.
\<close>

theorem load_missing_keeps_state_counterexample:
  "\<not> pathExists world0 ''/dst/none/file_state.db''
   \<and> fst (loadPreviousState world0
             \<lparr>currentState = [], previousState = [(''/src/a.txt'', sample_info)]\<rparr>
             ''/dst/none/file_state.db'')
   \<and> previousState (snd (loadPreviousState world0
             \<lparr>currentState = [], previousState = [(''/src/a.txt'', sample_info)]\<rparr>
             ''/dst/none/file_state.db'')) \<noteq> []
   \<and> \<not> pathExists world0 ''/dst/none/backup_metadata.json''
   \<and> fst (importFromJson world0 [(''a'', sample_record ''a'' ''full'' [])]
             ''/dst/none/backup_metadata.json'')
   \<and> snd (importFromJson world0 [(''a'', sample_record ''a'' ''full'' [])]
             ''/dst/none/backup_metadata.json'') \<noteq> []"
  by (simp add: loadPreviousState_def importFromJson_def pathExists_def world0_def)

text \<open>
  C8, amended: loading from a path that does not exist returns success and leaves the
  in-memory state as it was, for the tracker (\<^verbatim>\<open>loadPreviousState\<close>) and for the store
  (\<^verbatim>\<open>importFromJson\<close>); so the previous generation, or the store, is empty afterwards
  when it was empty before, as it is in an object just constructed.
\<close>

theorem load_missing_is_noop:
  assumes "\<not> pathExists w p"
  shows "loadPreviousState w t p = (True, t) \<and> importFromJson w s p = (True, s)"
  using assms by (simp add: loadPreviousState_def importFromJson_def)

theorem load_missing_is_noop_witness:
  "\<not> pathExists world0 ''/dst/none/file_state.db''
   \<and> loadPreviousState world0 FileTracker_new ''/dst/none/file_state.db''
       = (True, FileTracker_new)
   \<and> previousState FileTracker_new = []
   \<and> importFromJson world0 [] ''/dst/none/file_state.db'' = (True, [])"
proof -
  have h: "\<not> pathExists world0 ''/dst/none/file_state.db''"
    by (simp add: pathExists_def world0_def)
  show ?thesis
    using h load_missing_is_noop [OF h, of FileTracker_new "[]"]
    by (simp add: FileTracker_new_def)
qed

section \<open>Properties of the encryptor\<close>

lemma Encryptor_new_draws_iv:
  assumes "rand_ok w0" and "Encryptor_new w0 = (e0, w)"
  shows "iv e0 = map (\<lambda>i. rand_source w0 (rand_drawn w0 + i)) [0..<16]
         \<and> rand_drawn w = rand_drawn w0 + 16"
  using assms
  by (auto simp: Encryptor_new_def initializeEncryption_def generateRandomBytes_def)

lemma setKey_keeps_iv: "iv (snd (setKey L e k)) = iv e"
  by (simp add: setKey_def split: prod.splits)

lemma generateRandomKey_keeps_iv:
  "generateRandomKey e w ks = (r, e', w') \<Longrightarrow> iv e' = iv e"
  by (auto simp: generateRandomKey_def split: prod.splits)

lemma key_ops_keep_iv: "key_ops L ops (e, w) = (e', w') \<Longrightarrow> iv e' = iv e"
proof (induction ops arbitrary: e w)
  case Nil
  then show ?case by simp
next
  case (Cons op ops)
  show ?case
  proof (cases op)
    case (SetKey k)
    with Cons.prems have "key_ops L ops (snd (setKey L e k), w) = (e', w')" by simp
    from Cons.IH [OF this] show ?thesis by (simp add: setKey_keeps_iv)
  next
    case (GenerateRandomKey ks)
    obtain r e1 w1 where g: "generateRandomKey e w ks = (r, e1, w1)" by (metis prod_cases3)
    with Cons.prems GenerateRandomKey have "key_ops L ops (e1, w1) = (e', w')" by simp
    from Cons.IH [OF this] generateRandomKey_keeps_iv [OF g] show ?thesis by simp
  qed
qed

lemma encryptFile_output:
  assumes ok: "encryptFile L e w a x = (True, w1)"
  shows "\<exists>c. aes_256_cbc_encrypt L (key e) (iv e) (encrypt_input L w a x) = Some c
             \<and> open_read w1 x = Some (Raw (encrypt_header @ iv e @ c))
             \<and> rand_drawn w1 = rand_drawn w"
  using ok
  by (auto simp: encryptFile_def encryptFileInternal_def write_file_def open_read_def
                 update_conv'
           split: if_splits option.splits)

lemma stored_iv_of_output:
  assumes "open_read w p = Some (Raw (encrypt_header @ v @ c))" and "length v = 16"
  shows "stored_iv w p = Some v"
  using assms by (simp add: stored_iv_def read_header_iv_def encrypt_header_def)

lemma encryptFile_needs_key:
  "encryptFile L e w a x = (True, w1) \<Longrightarrow> key e \<noteq> []"
  by (auto simp: encryptFile_def split: if_splits)

text \<open>
  C9, as stated: every encryption operation uses an IV of its own, drawn fresh. On the
  code the only draw is in the constructor. An encryptor built in a world whose random
  source gives the bytes 0, 1, 2, ... encrypts two files: both carry the IV
  0, ..., 15 in their header, and afterwards 16 bytes have been drawn in all, though the
  source would have given other bytes next.
\<close>

theorem encryptFile_reuses_iv_counterexample:
  "stored_iv two_encryptions ''/dst/x'' = Some (map of_nat [0..<16])
   \<and> stored_iv two_encryptions ''/dst/y'' = Some (map of_nat [0..<16])
   \<and> rand_drawn two_encryptions = 16
   \<and> map (rand_source two_encryptions) [16..<32] \<noteq> map (rand_source two_encryptions) [0..<16]"
  by code_simp

text \<open>
  C9, amended: the IV of an encryptor is the 16 bytes that its constructor draws from
  the random source (when the draw succeeds); setting or generating a key leaves it as
  it is, and encrypting draws nothing. So for an instance \<open>e\<close> constructed in the world
  \<open>w0\<close> and taken through any sequence of key operations, any two successful
  \<^verbatim>\<open>encryptFile\<close> calls, in whatever worlds, run the cipher with those 16 bytes as the
  IV, write the tag, those 16 bytes and that ciphertext, and leave the random source
  where it was; and \<^verbatim>\<open>encryptData\<close> runs the cipher with those 16 bytes too.
\<close>

theorem encryptFile_uses_instance_iv:
  assumes rnd: "rand_ok w0"
      and new: "Encryptor_new w0 = (e0, w)"
      and ops: "key_ops L ops (e0, w) = (e, w')"
      and ok1: "encryptFile L e wa a x = (True, wa')"
      and ok2: "encryptFile L e wb b y = (True, wb')"
  shows "iv e = map (\<lambda>i. rand_source w0 (rand_drawn w0 + i)) [0..<16]
         \<and> (\<exists>c. aes_256_cbc_encrypt L (key e)
                    (map (\<lambda>i. rand_source w0 (rand_drawn w0 + i)) [0..<16])
                    (encrypt_input L wa a x) = Some c
                \<and> open_read wa' x
                    = Some (Raw (encrypt_header
                                 @ map (\<lambda>i. rand_source w0 (rand_drawn w0 + i)) [0..<16] @ c)))
         \<and> (\<exists>c. aes_256_cbc_encrypt L (key e)
                    (map (\<lambda>i. rand_source w0 (rand_drawn w0 + i)) [0..<16])
                    (encrypt_input L wb b y) = Some c
                \<and> open_read wb' y
                    = Some (Raw (encrypt_header
                                 @ map (\<lambda>i. rand_source w0 (rand_drawn w0 + i)) [0..<16] @ c)))
         \<and> stored_iv wa' x = Some (map (\<lambda>i. rand_source w0 (rand_drawn w0 + i)) [0..<16])
         \<and> stored_iv wb' y = Some (map (\<lambda>i. rand_source w0 (rand_drawn w0 + i)) [0..<16])
         \<and> rand_drawn wa' = rand_drawn wa \<and> rand_drawn wb' = rand_drawn wb
         \<and> encryptData L e d
             = (case aes_256_cbc_encrypt L (key e)
                       (map (\<lambda>i. rand_source w0 (rand_drawn w0 + i)) [0..<16]) d of
                  None \<Rightarrow> [] | Some c \<Rightarrow> c)"
proof -
  let ?v = "map (\<lambda>i. rand_source w0 (rand_drawn w0 + i)) [0..<16]"
  have v: "iv e = ?v"
    using Encryptor_new_draws_iv [OF rnd new] key_ops_keep_iv [OF ops] by simp
  have len: "length ?v = 16" by simp
  from encryptFile_output [OF ok1] v obtain c1
    where c1: "aes_256_cbc_encrypt L (key e) ?v (encrypt_input L wa a x) = Some c1"
      and o1: "open_read wa' x = Some (Raw (encrypt_header @ ?v @ c1))"
      and r1: "rand_drawn wa' = rand_drawn wa"
    by auto
  from encryptFile_output [OF ok2] v obtain c2
    where c2: "aes_256_cbc_encrypt L (key e) ?v (encrypt_input L wb b y) = Some c2"
      and o2: "open_read wb' y = Some (Raw (encrypt_header @ ?v @ c2))"
      and r2: "rand_drawn wb' = rand_drawn wb"
    by auto
  have k: "key e \<noteq> []" using ok1 by (rule encryptFile_needs_key)
  have d: "encryptData L e d
             = (case aes_256_cbc_encrypt L (key e) ?v d of None \<Rightarrow> [] | Some c \<Rightarrow> c)"
    using k v by (simp add: encryptData_def)
  show ?thesis
    using v c1 o1 r1 c2 o2 r2 d
          stored_iv_of_output [OF o1 len] stored_iv_of_output [OF o2 len]
    by simp
qed

theorem encryptFile_uses_instance_iv_witness:
  "iv demo_encryptor = map (\<lambda>i. rand_source world0 (rand_drawn world0 + i)) [0..<16]
   \<and> (\<exists>c. aes_256_cbc_encrypt demo_libs (key demo_encryptor)
              (map (\<lambda>i. rand_source world0 (rand_drawn world0 + i)) [0..<16])
              (encrypt_input demo_libs demo_world ''/src/a.txt'' ''/dst/x'') = Some c
          \<and> open_read (snd (encryptFile demo_libs demo_encryptor demo_world
                               ''/src/a.txt'' ''/dst/x'')) ''/dst/x''
              = Some (Raw (encrypt_header
                           @ map (\<lambda>i. rand_source world0 (rand_drawn world0 + i)) [0..<16] @ c)))
   \<and> (\<exists>c. aes_256_cbc_encrypt demo_libs (key demo_encryptor)
              (map (\<lambda>i. rand_source world0 (rand_drawn world0 + i)) [0..<16])
              (encrypt_input demo_libs
                 (snd (encryptFile demo_libs demo_encryptor demo_world ''/src/a.txt'' ''/dst/x''))
                 ''/src/a.txt'' ''/dst/y'') = Some c
          \<and> open_read two_encryptions ''/dst/y''
              = Some (Raw (encrypt_header
                           @ map (\<lambda>i. rand_source world0 (rand_drawn world0 + i)) [0..<16] @ c)))
   \<and> stored_iv (snd (encryptFile demo_libs demo_encryptor demo_world ''/src/a.txt'' ''/dst/x''))
         ''/dst/x''
       = Some (map (\<lambda>i. rand_source world0 (rand_drawn world0 + i)) [0..<16])
   \<and> stored_iv two_encryptions ''/dst/y''
       = Some (map (\<lambda>i. rand_source world0 (rand_drawn world0 + i)) [0..<16])
   \<and> rand_drawn (snd (encryptFile demo_libs demo_encryptor demo_world ''/src/a.txt'' ''/dst/x''))
       = rand_drawn demo_world
   \<and> rand_drawn two_encryptions
       = rand_drawn (snd (encryptFile demo_libs demo_encryptor demo_world ''/src/a.txt'' ''/dst/x''))
   \<and> encryptData demo_libs demo_encryptor [1, 2, 3]
       = (case aes_256_cbc_encrypt demo_libs (key demo_encryptor)
                 (map (\<lambda>i. rand_source world0 (rand_drawn world0 + i)) [0..<16]) [1, 2, 3] of
            None \<Rightarrow> [] | Some c \<Rightarrow> c)"
proof -
  let ?w1 = "snd (encryptFile demo_libs demo_encryptor demo_world ''/src/a.txt'' ''/dst/x'')"
  have rnd: "rand_ok world0" by (simp add: world0_def)
  have new: "Encryptor_new world0 = (fst (Encryptor_new world0), demo_world)"
    by (simp add: demo_world_def)
  have ops: "key_ops demo_libs [SetKey ''secret''] (fst (Encryptor_new world0), demo_world)
               = (demo_encryptor, demo_world)"
    by (simp add: demo_encryptor_def)
  have f1: "fst (encryptFile demo_libs demo_encryptor demo_world ''/src/a.txt'' ''/dst/x'')"
    by code_simp
  have f2: "fst (encryptFile demo_libs demo_encryptor ?w1 ''/src/a.txt'' ''/dst/y'')"
    by code_simp
  have h1: "encryptFile demo_libs demo_encryptor demo_world ''/src/a.txt'' ''/dst/x''
              = (True, ?w1)"
    using f1 by (simp add: prod_eq_iff)
  have h2: "encryptFile demo_libs demo_encryptor ?w1 ''/src/a.txt'' ''/dst/y''
              = (True, two_encryptions)"
    using f2 by (simp add: prod_eq_iff two_encryptions_def)
  show ?thesis
    by (rule encryptFile_uses_instance_iv [OF rnd new ops h1 h2])
qed

section \<open>Properties of the orchestrator\<close>

subsection \<open>The parent id of an incremental backup\<close>

lemma copyFileWithOptions_metadata:
  "copyFileWithOptions L m w s d opts = (ok, m', w') \<Longrightarrow> metadata m' = metadata m"
  by (auto simp: copyFileWithOptions_def split: if_splits prod.splits)

lemma backup_one_file_keeps:
  assumes "backup_one_file L opts d p (m, w, info) = (ok, m', w', info')"
  shows "metadata m' = metadata m \<and> backupId info' = backupId info
         \<and> parentBackupId info' = parentBackupId info"
  using assms
  by (auto simp: backup_one_file_def Let_def split: prod.splits if_splits
           dest: copyFileWithOptions_metadata)

lemma backup_files_keeps:
  "backup_files L opts d ps (m, w, info) = (ok, m', w', info')
   \<Longrightarrow> metadata m' = metadata m \<and> backupId info' = backupId info
       \<and> parentBackupId info' = parentBackupId info"
proof (induction ps arbitrary: m w info)
  case Nil
  then show ?case by simp
next
  case (Cons p ps)
  obtain ok1 m1 w1 info1
    where one: "backup_one_file L opts d p (m, w, info) = (ok1, m1, w1, info1)"
    by (metis prod_cases4)
  note k1 = backup_one_file_keeps [OF one]
  show ?case
  proof (cases ok1)
    case True
    with Cons.prems one have "backup_files L opts d ps (m1, w1, info1) = (ok, m', w', info')"
      by simp
    from Cons.IH [OF this] k1 show ?thesis by simp
  next
    case False
    with Cons.prems one k1 show ?thesis by auto
  qed
qed

lemma createDirectoryRecursive_uuid:
  "uuid_source (snd (createDirectoryRecursive w p)) = uuid_source w
   \<and> uuids_drawn (snd (createDirectoryRecursive w p)) = uuids_drawn w"
  by (simp add: createDirectoryRecursive_def split: option.splits)

lemma save_backup_metadata:
  "save_backup L d (m, w, info) = (m', w')
   \<Longrightarrow> metadata m' = snd (createBackupInfo (metadata m) info)"
  by (auto simp: save_backup_def Let_def)

lemma scan_entries_uuid:
  "scan_entries L entries (cur, w) = (cur', w')
   \<Longrightarrow> uuid_source w' = uuid_source w \<and> uuids_drawn w' = uuids_drawn w"
proof (induction entries arbitrary: cur w)
  case Nil
  then show ?case by simp
next
  case (Cons entry entries)
  obtain info w1 where c: "createFileInfo L w entry = (info, w1)" by force
  then have k: "uuid_source w1 = uuid_source w \<and> uuids_drawn w1 = uuids_drawn w"
    by (auto simp: createFileInfo_def getFileModificationTime_def convert_file_time_def
             split: prod.splits node.splits option.splits)
  from Cons.prems c
  have "scan_entries L entries (AList.update (path info) info cur, w1) = (cur', w')"
    by simp
  from Cons.IH [OF this] k show ?case by simp
qed

lemma scanDirectory_uuid:
  "scanDirectory L w t p = (ok, t', w')
   \<Longrightarrow> uuid_source w' = uuid_source w \<and> uuids_drawn w' = uuids_drawn w"
  by (auto simp: scanDirectory_def split: option.splits prod.splits dest: scan_entries_uuid)

text \<open>
  Whenever the latest backup directory of the destination holds its snapshot and its
  metadata file, \<^verbatim>\<open>createIncrementalBackup\<close> either leaves the manager's store as it
  was or adds one record, under the second UUID drawn, whose parent id is the first UUID
  drawn: whatever the metadata file holds, the parent id is not read from it.
\<close>

lemma createIncrementalBackup_parent_drawn:
  assumes nb: "listBackups w (destPath opts) \<noteq> []"
    and st: "pathExists w (joinPaths (last (listBackups w (destPath opts))) ''file_state.db'')"
    and md: "pathExists w (joinPaths (last (listBackups w (destPath opts)))
                                     ''backup_metadata.json'')"
    and run: "createIncrementalBackup L m w opts = (r, m', w')"
  shows "metadata m' = metadata m
         \<or> (\<exists>info. metadata m'
                     = AList.update (uuid_source w (Suc (uuids_drawn w))) info (metadata m)
                 \<and> parentBackupId info = uuid_source w (uuids_drawn w))"
proof -
  let ?w0 = "w\<lparr>uuids_drawn := Suc (uuids_drawn w)\<rparr>"
  let ?t0 = "snd (loadPreviousState w (fileTracker m)
                   (joinPaths (last (listBackups w (destPath opts))) ''file_state.db''))"
  obtain scanOk t1 ws
    where sc: "scanDirectory L ?w0 ?t0 (opt_sourcePath opts) = (scanOk, t1, ws)"
    by (metis prod_cases3)
  let ?d = "generateBackupPath L ws (destPath opts)"
  have us: "uuid_source ws = uuid_source w \<and> uuids_drawn ws = Suc (uuids_drawn w)"
    using scanDirectory_uuid [OF sc] by simp
  have u1: "uuid_source (snd (createBackupDirectory ws ?d))
              (uuids_drawn (snd (createBackupDirectory ws ?d)))
            = uuid_source w (Suc (uuids_drawn w))"
    using createDirectoryRecursive_uuid [of ws ?d] us by (simp add: createBackupDirectory_def)
  show ?thesis
    using run nb st md sc u1
    by (auto simp: createIncrementalBackup_def Let_def generateUUID_def createBackupInfo_def
             split: prod.splits if_splits
             dest!: backup_files_keeps save_backup_metadata)
qed

text \<open>
  C1: after a full backup (id \<^verbatim>\<open>uuid-0\<close>) and a change to \<^verbatim>\<open>a.txt\<close>, the manager that
  made the full backup makes an incremental one. The new record (id \<^verbatim>\<open>uuid-2\<close>) has the
  parent id \<^verbatim>\<open>uuid-1\<close>, the UUID drawn where the source says the id should be loaded
  from the metadata; it is not the id of the backup the diff was taken against, it names
  no record of the store, and the chain of the new record is the new record alone.
\<close>

theorem createIncrementalBackup_parent_is_fresh_uuid:
  "(case incremental_run of
      (ok, m, w) \<Rightarrow>
        ok \<and> map (\<lambda>(k, i). (k, backupType i, parentBackupId i)) (metadata m)
                = [(''uuid-0'', ''full'', []), (''uuid-2'', ''incremental'', ''uuid-1'')]
           \<and> map_of (metadata m) ''uuid-1'' = None
           \<and> getBackupChain (metadata m) ''uuid-2'' = [''uuid-2''])"
  by code_simp

subsection \<open>The files of an incremental backup\<close>

lemma changed_is_new_and_modified:
  "count_list (map fst (filter (\<lambda>(p, c). case m p of None \<Rightarrow> True
                                              | Some q \<Rightarrow> \<not> compareFileInfo c q) xs)) x
   = count_list (map fst (filter (\<lambda>(p, c). m p = None) xs)) x
     + count_list (map fst (filter (\<lambda>(p, c). case m p of None \<Rightarrow> False
                                                | Some q \<Rightarrow> \<not> compareFileInfo c q) xs)) x"
  by (induction xs) (auto split: option.splits)

text \<open>
  In the list that \<^verbatim>\<open>createIncrementalBackup\<close> backs up, every path occurs twice as
  often as among the changed files.
\<close>

lemma filesToBackup_lists_twice:
  "count_list (getChangedFiles t @ getNewFiles t @ getModifiedFiles t) p
     = 2 * count_list (getChangedFiles t) p"
  using changed_is_new_and_modified [of "map_of (previousState t)" "currentState t" p]
  by (simp add: getChangedFiles_def getNewFiles_def getModifiedFiles_def)

text \<open>
  C2: after a full backup, \<^verbatim>\<open>a.txt\<close> grows from 10 to 15 bytes and nothing else
  changes; a new manager makes an incremental backup. The tracker reports one modified
  file, no new file and no deleted file, and the record of the backup holds two entries
  for \<^verbatim>\<open>a.txt\<close>: the list to back up is the changed files followed by the new files
  followed by the modified files, and the changed files already are the new and the
  modified ones.
\<close>

theorem createIncrementalBackup_duplicate_entries:
  "(case fresh_incremental_run of
      (ok, m, w) \<Rightarrow>
        ok \<and> getModifiedFiles (fileTracker m) = [''/src/a.txt'']
           \<and> getNewFiles (fileTracker m) = []
           \<and> getDeletedFiles (fileTracker m) = []
           \<and> getChangedFiles (fileTracker m) = [''/src/a.txt'']
           \<and> map (\<lambda>(k, i). (map relativePath (files i), totalSize i)) (metadata m)
               = [([''a.txt'', ''a.txt''], 30)])"
  by code_simp

subsection \<open>Restoring\<close>

text \<open>A file that \<^verbatim>\<open>restoreFileInternal\<close> restores has the content of the stored file.\<close>

lemma restoreFileInternal_copies:
  assumes "restoreFileInternal w s d = (True, w')"
  shows "open_read w s \<noteq> None \<and> open_read w' d = open_read w s"
  using assms
  by (auto simp: restoreFileInternal_def copyFile_def write_file_def open_read_def update_conv'
           split: option.splits if_splits)

text \<open>
  C3: a full backup with encryption enabled, restored into \<^verbatim>\<open>/out\<close>. Both operations
  succeed; the restored \<^verbatim>\<open>a.txt\<close> is the stored file, byte for byte (the tag, the IV and
  the ciphertext), not the 10 bytes of the source file: \<^verbatim>\<open>restoreFileInternal\<close> copies
  and applies no inverse transform.
\<close>

theorem restoreBackup_returns_stored_bytes:
  "(case restore_run of
      (ok, ok', w) \<Rightarrow>
        ok \<and> ok'
        \<and> open_read w ''/src/a.txt'' = Some (Raw (map of_char ''0123456789''))
        \<and> open_read w ''/out/a.txt'' = open_read w ''/dst/backup_19700101_000030/a.txt''
        \<and> open_read w ''/out/a.txt''
            = Some (Raw (map of_char ''ENCRYPT1'' @ map of_nat [0..<16]
                         @ map of_char ''123456789:'' @ replicate 6 6)))"
  by code_simp

end
